theory Spec2Isabelle
  imports Main "HOL-Library.Sublist" "HOL-Library.Multiset"
begin

section \<open>Data model of \<open>src/generator.ts\<close>\<close>

text \<open>
  The interface \<open>Schema\<close> has nine optional fields. An absent field is \<open>None\<close>.
  The field \<open>$ref\<close> is called \<open>ref\<close> here. A \<open>Record<string, Schema>\<close> is an
  association list in the order in which the keys were written into the object (its
  keys are distinct); a lookup takes the first entry with the key, and
  \<open>Object.entries\<close> is the function \<open>objectEntries\<close> below. An entry of the
  schema mapping may be \<open>null\<close> (\<open>None\<close>), as an empty entry of the loaded
  document is; the schemas nested inside a schema are present, as the interface
  declares them.

  Strings are lists of characters. The character classes of the regular expressions and
  the case mapping are modelled on the ASCII range: \<open>\s\<close> and \<open>trim\<close> know the six
  ASCII white-space characters, \<open>toUpperCase\<close> maps \<open>a\<close>..\<open>z\<close> and leaves
  every other character alone.
\<close>

datatype Schema = Schema
  (type: "string option")
  (enum: "string list option")
  (properties: "(string \<times> Schema) list option")
  (required: "string list option")
  (oneOf: "Schema list option")
  (anyOf: "Schema list option")
  (allOf: "Schema list option")
  (ref: "string option")
  (items: "Schema option")

record GeneratorOptions =
  interfacePrefix :: "string option"
  inlineRef :: "bool option"

text \<open>
  A call of the recursive functions either returns a string, or throws (the only
  exception the code can raise is the \<open>TypeError\<close> of reading a property of
  \<open>undefined\<close>), or has not returned within the given recursion depth (\<open>None\<close>).
\<close>

datatype error = TypeError

type_synonym 'a result = "(error + 'a) option"

section \<open>Strings\<close>

definition lowerChars :: string where
  "lowerChars = ''abcdefghijklmnopqrstuvwxyz''"

definition upperChars :: string where
  "upperChars = ''ABCDEFGHIJKLMNOPQRSTUVWXYZ''"

definition digitChars :: string where
  "digitChars = ''0123456789''"

text \<open>The class \<open>\s\<close>: tab, line feed, vertical tab, form feed, carriage return, space.\<close>

definition isSpace :: "char \<Rightarrow> bool" where
  "isSpace c = (c \<in> set [CHR 0x09, CHR 0x0A, CHR 0x0B, CHR 0x0C, CHR 0x0D, CHR 0x20])"

definition isLower :: "char \<Rightarrow> bool" where
  "isLower c = (c \<in> set lowerChars)"

definition isUpper :: "char \<Rightarrow> bool" where
  "isUpper c = (c \<in> set upperChars)"

definition isDigit :: "char \<Rightarrow> bool" where
  "isDigit c = (c \<in> set digitChars)"

text \<open>The class \<open>\w\<close>.\<close>

definition isWord :: "char \<Rightarrow> bool" where
  "isWord c = (isLower c \<or> isUpper c \<or> isDigit c \<or> c = CHR ''_'')"

definition toUpperChar :: "char \<Rightarrow> char" where
  "toUpperChar c = (case map_of (zip lowerChars upperChars) c of Some u \<Rightarrow> u | None \<Rightarrow> c)"

definition toUpperCase :: "string \<Rightarrow> string" where
  "toUpperCase s = map toUpperChar s"

definition trim :: "string \<Rightarrow> string" where
  "trim s = rev (dropWhile isSpace (rev (dropWhile isSpace s)))"

text \<open>\<open>Array.prototype.join\<close>.\<close>

fun join :: "string \<Rightarrow> string list \<Rightarrow> string" where
  "join sep [] = []"
| "join sep [x] = x"
| "join sep (x # y # ys) = x @ sep @ join sep (y # ys)"

text \<open>
  \<open>s.replace(pat, rep)\<close> with a string pattern: the first occurrence of \<open>pat\<close>,
  wherever it stands, is replaced; a string without one is returned as it is.
\<close>

fun replaceFirst :: "string \<Rightarrow> string \<Rightarrow> string \<Rightarrow> string" where
  "replaceFirst pat rep [] = (if pat = [] then rep else [])"
| "replaceFirst pat rep (c # cs) =
     (if prefix pat (c # cs) then rep @ drop (length pat) (c # cs)
      else c # replaceFirst pat rep cs)"

text \<open>
  \<open>s.replace(/[-\s]+/g, "_")\<close>: every maximal run of hyphens and white space becomes
  one underscore.
\<close>

definition isSep :: "char \<Rightarrow> bool" where
  "isSep c = (c = CHR ''-'' \<or> isSpace c)"

function replaceSeparators :: "string \<Rightarrow> string" where
  "replaceSeparators [] = []"
| "replaceSeparators (c # cs) =
     (if isSep c then CHR ''_'' # replaceSeparators (dropWhile isSep cs)
      else c # replaceSeparators cs)"
  by pat_completeness auto
termination
  by (relation "measure length") (auto simp: length_dropWhile_le less_Suc_eq_le)

text \<open>
  \<open>s.replace(/([a-z0-9])([A-Z])/g, "$1_$2")\<close>: the scan goes from left to right
  and resumes after the two characters of a match.
\<close>

fun replaceCamel :: "string \<Rightarrow> string" where
  "replaceCamel (a # b # cs) =
     (if (isLower a \<or> isDigit a) \<and> isUpper b then a # CHR ''_'' # b # replaceCamel cs
      else a # replaceCamel (b # cs))"
| "replaceCamel cs = cs"

section \<open>Identifier sanitizers\<close>

definition safeEnumKey :: "string \<Rightarrow> string" where
  "safeEnumKey key =
     (let safeKey = replaceSeparators (trim key);
          safeKey = replaceCamel safeKey;
          safeKey = (case safeKey of c # _ \<Rightarrow> if isDigit c then CHR ''_'' # safeKey else safeKey
                     | [] \<Rightarrow> safeKey)
      in toUpperCase safeKey)"

text \<open>The test \<open>/^[a-zA-Z_]\w*$/\<close> of \<open>safeKey\<close>.\<close>

definition isIdentifier :: "string \<Rightarrow> bool" where
  "isIdentifier key =
     (case key of [] \<Rightarrow> False
      | c # cs \<Rightarrow> (isLower c \<or> isUpper c \<or> c = CHR ''_'') \<and> list_all isWord cs)"

definition safeKey :: "string \<Rightarrow> string" where
  "safeKey key = (if isIdentifier key then key else [CHR 0x27] @ key @ [CHR 0x27])"

section \<open>Enumeration order of an object\<close>

text \<open>
  \<open>Object.entries\<close> does not list the keys as they were written. The keys that are
  array indices (the canonical decimal numerals from \<open>0\<close> to \<open>4294967294\<close>) come
  first, in ascending numeric order; the other keys follow in the order in which they
  were written.
\<close>

definition digitValue :: "char \<Rightarrow> nat" where
  "digitValue c =
     (case map_of (zip digitChars [0, 1, 2, 3, 4, 5, 6, 7, 8, 9]) c of Some d \<Rightarrow> d | None \<Rightarrow> 0)"

definition decimalValue :: "string \<Rightarrow> nat" where
  "decimalValue s = foldl (\<lambda>a c. 10 * a + digitValue c) 0 s"

definition arrayIndex :: "string \<Rightarrow> nat option" where
  "arrayIndex key =
     (case key of
        [] \<Rightarrow> None
      | c # cs \<Rightarrow>
          if list_all isDigit key \<and> (c \<noteq> CHR ''0'' \<or> cs = []) \<and> decimalValue key \<le> 4294967294
          then Some (decimalValue key) else None)"

definition indexOf :: "string \<times> 'a \<Rightarrow> nat" where
  "indexOf entry = (case arrayIndex (fst entry) of Some i \<Rightarrow> i | None \<Rightarrow> 0)"

definition isIndexed :: "string \<times> 'a \<Rightarrow> bool" where
  "isIndexed entry = (arrayIndex (fst entry) \<noteq> None)"

definition objectEntries :: "(string \<times> 'a) list \<Rightarrow> (string \<times> 'a) list" where
  "objectEntries obj =
     sort_key indexOf (filter isIndexed obj) @ filter (\<lambda>entry. \<not> isIndexed entry) obj"

section \<open>Results of calls that may throw or recurse without end\<close>

text \<open>
  \<open>Array.prototype.map\<close> with a callback that may throw: the elements are
  visited from left to right, and the first call that does not return decides.
\<close>

fun collect :: "'a result list \<Rightarrow> 'a list result" where
  "collect [] = Some (Inr [])"
| "collect (r # rs) =
     (case r of
        None \<Rightarrow> None
      | Some (Inl e) \<Rightarrow> Some (Inl e)
      | Some (Inr x) \<Rightarrow>
          (case collect rs of
             None \<Rightarrow> None
           | Some (Inl e) \<Rightarrow> Some (Inl e)
           | Some (Inr xs) \<Rightarrow> Some (Inr (x # xs))))"

text \<open>
  A function applied to the value that a call returns; an exception and the absence of
  a result pass through.
\<close>

definition returning :: "('a \<Rightarrow> 'b) \<Rightarrow> 'a result \<Rightarrow> 'b result" where
  "returning f r = map_option (map_sum id f) r"

section \<open>Reference resolution\<close>

definition schemasPath :: string where
  "schemasPath = ''#/components/schemas/''"

definition refName :: "string \<Rightarrow> GeneratorOptions \<Rightarrow> string" where
  "refName r options =
     (let name = replaceFirst schemasPath [] r
      in (case interfacePrefix options of None \<Rightarrow> ''I'' | Some p \<Rightarrow> p) @ name)"

text \<open>The value of \<open>schema.$ref\<close> when it is truthy: a string that is not empty.\<close>

definition truthyRef :: "Schema \<Rightarrow> string option" where
  "truthyRef schema = (case ref schema of None \<Rightarrow> None | Some r \<Rightarrow> if r = [] then None else Some r)"

text \<open>
  \<open>allSchemas[key]\<close> on a plain object. A key the object does not own is looked up
  in \<open>Object.prototype\<close>: for its twelve property names the read gives a function (or,
  for \<open>__proto__\<close>, the prototype itself), a value none of whose fields the code reads is
  defined; it is the schema \<open>noFields\<close> here. Every other absent key reads
  \<open>undefined\<close>, and an entry that is \<open>null\<close> reads \<open>null\<close>: both are
  \<open>None\<close>, as reading a property of either throws the same \<open>TypeError\<close>.
\<close>

definition noFields :: Schema where
  "noFields = Schema None None None None None None None None None"

definition objectPrototypeKeys :: "string list" where
  "objectPrototypeKeys =
     [''constructor'', ''__defineGetter__'', ''__defineSetter__'', ''hasOwnProperty'',
      ''__lookupGetter__'', ''__lookupSetter__'', ''isPrototypeOf'', ''propertyIsEnumerable'',
      ''toString'', ''valueOf'', ''__proto__'', ''toLocaleString'']"

definition lookupSchema :: "(string \<times> Schema option) list \<Rightarrow> string \<Rightarrow> Schema option" where
  "lookupSchema allSchemas key =
     (case map_of allSchemas key of
        Some s \<Rightarrow> s
      | None \<Rightarrow> if key \<in> set objectPrototypeKeys then Some noFields else None)"

section \<open>Type expression mapper and inline object renderer\<close>

text \<open>
  \<open>mapType\<close> and \<open>inlineObject\<close> call each other, and with \<open>inlineRef\<close> a
  reference leads to a schema that is no part of the one at hand, so the recursion is
  not structural. The first argument bounds the depth of the calls: a call that would
  need more depth gives \<open>None\<close>. The schema argument is optional, as \<open>mapType\<close>
  tests \<open>!schema\<close> and \<open>inlineObject\<close> receives the result of a lookup.
\<close>

text \<open>
  One line of an inline object: two spaces, the key, a question mark unless
  \<open>schema.required\<close> is there and includes the property, a colon and the type.
\<close>

definition fieldLine :: "string list option \<Rightarrow> string \<Rightarrow> string \<Rightarrow> string" where
  "fieldLine req prop typeStr =
     (let required = (case req of None \<Rightarrow> False | Some rs \<Rightarrow> prop \<in> set rs)
      in ''  '' @ safeKey prop @ (if required then [] else ''?'') @ '': '' @ typeStr @ '';'')"

text \<open>The string-literal type of an enum value: the value between two double quotes.\<close>

definition quoted :: "string \<Rightarrow> string" where
  "quoted v = [CHR 0x22] @ v @ [CHR 0x22]"

fun mapType ::
    "nat \<Rightarrow> Schema option \<Rightarrow> (string \<times> Schema option) list \<Rightarrow> GeneratorOptions
       \<Rightarrow> string result"
  and inlineObject ::
    "nat \<Rightarrow> Schema option \<Rightarrow> (string \<times> Schema option) list \<Rightarrow> bool \<Rightarrow> GeneratorOptions
       \<Rightarrow> string result"
  where
  "mapType 0 schema allSchemas options = None"
| "mapType (Suc n) None allSchemas options = Some (Inr ''any'')"
| "mapType (Suc n) (Some schema) allSchemas options =
     (case truthyRef schema of
        Some r \<Rightarrow>
          if inlineRef options = Some True
          then inlineObject n (lookupSchema allSchemas (replaceFirst schemasPath [] r)) allSchemas True options
          else Some (Inr (refName r options))
      | None \<Rightarrow>
     (case oneOf schema of
        Some vs \<Rightarrow> returning (join '' | '') (collect (map (\<lambda>s. mapType n (Some s) allSchemas options) vs))
      | None \<Rightarrow>
     (case anyOf schema of
        Some vs \<Rightarrow> returning (join '' | '') (collect (map (\<lambda>s. mapType n (Some s) allSchemas options) vs))
      | None \<Rightarrow>
     (case allOf schema of
        Some vs \<Rightarrow> returning (join '' & '') (collect (map (\<lambda>s. mapType n (Some s) allSchemas options) vs))
      | None \<Rightarrow>
     (case type schema of
        None \<Rightarrow> Some (Inr ''any'')
      | Some t \<Rightarrow>
          if t = ''integer'' \<or> t = ''number'' then Some (Inr ''number'')
          else if t = ''string'' then
            (case enum schema of
               None \<Rightarrow> Some (Inr ''string'')
             | Some vs \<Rightarrow> if vs = [] then Some (Inr ''string'') else Some (Inr (join '' | '' (map quoted vs))))
          else if t = ''boolean'' then Some (Inr ''boolean'')
          else if t = ''array'' then
            (case items schema of
               Some i \<Rightarrow> returning (\<lambda>typeStr. typeStr @ ''[]'') (mapType n (Some i) allSchemas options)
             | None \<Rightarrow> Some (Inr ''any[]''))
          else if t = ''object'' then
            (case properties schema of
               Some _ \<Rightarrow> inlineObject n (Some schema) allSchemas True options
             | None \<Rightarrow> Some (Inr ''{ [key: string]: any }''))
          else Some (Inr ''any''))))))"
| "inlineObject 0 schema allSchemas withBraces options = None"
| "inlineObject (Suc n) None allSchemas withBraces options = Some (Inl TypeError)"
| "inlineObject (Suc n) (Some schema) allSchemas withBraces options =
     (case properties schema of
        None \<Rightarrow> Some (Inr ''{}'')
      | Some props \<Rightarrow>
          returning (\<lambda>lines. ''{\<newline>'' @ join ''\<newline>'' lines @ ''\<newline>}'')
            (collect (map (\<lambda>(prop, propSchema).
               returning (fieldLine (required schema) prop) (mapType n (Some propSchema) allSchemas options))
               (objectEntries props))))"

section \<open>Declaration emitter\<close>

text \<open>
  One variant of a top-level union or intersection:
  \<open>s.$ref ? refName(s.$ref, options) : inlineObject(s, allSchemas, true, options)\<close>.
\<close>

definition variant ::
    "nat \<Rightarrow> (string \<times> Schema option) list \<Rightarrow> GeneratorOptions \<Rightarrow> Schema \<Rightarrow> string result" where
  "variant fuel allSchemas options s =
     (case truthyRef s of
        Some r \<Rightarrow> Some (Inr (refName r options))
      | None \<Rightarrow> inlineObject fuel (Some s) allSchemas True options)"

text \<open>One member line of an enum declaration.\<close>

definition enumMember :: "string \<Rightarrow> string" where
  "enumMember v = ''  '' @ safeEnumKey v @ '' = '' @ [CHR 0x22] @ v @ [CHR 0x22] @ '',''"

text \<open>
  The schema argument is optional here too: \<open>generateType\<close> has no test of
  \<open>!schema\<close>, and for an absent schema its first read, \<open>schema.enum\<close>, throws.
\<close>

definition generateType ::
    "nat \<Rightarrow> string \<Rightarrow> Schema option \<Rightarrow> (string \<times> Schema option) list \<Rightarrow> GeneratorOptions
       \<Rightarrow> string result" where
  "generateType fuel name schema' allSchemas options =
     (let interfacePrefix = (case interfacePrefix options of None \<Rightarrow> ''I'' | Some p \<Rightarrow> p) in
      case schema' of
        None \<Rightarrow> Some (Inl TypeError)
      | Some schema \<Rightarrow>
      case enum schema of
        Some vs \<Rightarrow>
          Some (Inr (''export enum '' @ interfacePrefix @ name @ '' {\<newline>''
                     @ join ''\<newline>'' (map enumMember vs) @ ''\<newline>}''))
      | None \<Rightarrow>
      if oneOf schema \<noteq> None \<or> anyOf schema \<noteq> None then
        (let variants = collect (map (variant fuel allSchemas options)
               (case oneOf schema of Some vs \<Rightarrow> vs
                | None \<Rightarrow> (case anyOf schema of Some vs \<Rightarrow> vs | None \<Rightarrow> [])))
         in returning (\<lambda>vs. ''export type '' @ interfacePrefix @ name @ '' = '' @ join '' | '' vs @ '';'') variants)
      else
      (case allOf schema of
         Some ps \<Rightarrow>
           (let parts = collect (map (variant fuel allSchemas options) ps)
            in returning (\<lambda>vs. ''export type '' @ interfacePrefix @ name @ '' = '' @ join '' & '' vs @ '';'') parts)
       | None \<Rightarrow>
      if type schema = Some ''object'' \<or> properties schema \<noteq> None then
        returning (\<lambda>objStr. ''export interface '' @ interfacePrefix @ name @ '' '' @ objStr)
          (inlineObject fuel (Some schema) allSchemas True options)
      else Some (Inr (''export type '' @ interfacePrefix @ name @ '' = any;''))))"

text \<open>
  The part of \<open>generateFromYamlFile\<close> after the document is loaded: one declaration
  for each entry of the schema mapping, as \<open>Object.entries\<close> lists them, joined by an
  empty line.
\<close>

definition generateFromSchemas ::
    "nat \<Rightarrow> (string \<times> Schema option) list \<Rightarrow> GeneratorOptions \<Rightarrow> string result" where
  "generateFromSchemas fuel schemas options =
     returning (join ''\<newline>\<newline>'')
       (collect (map (\<lambda>(name, schema). generateType fuel name schema schemas options)
          (objectEntries schemas)))"

section \<open>Schemas used in the examples\<close>

text \<open>The schema \<open>{$ref: r}\<close> and the schema \<open>{type: t}\<close>.\<close>

definition refTo :: "string \<Rightarrow> Schema" where
  "refTo r = Schema None None None None None None None (Some r) None"

definition ofType :: "string \<Rightarrow> Schema" where
  "ofType t = Schema (Some t) None None None None None None None None"

text \<open>The schema mapping \<open>{ A: {$ref: r}, B: {type: "string"} }\<close>.\<close>

definition roundTripSchemas :: "string \<Rightarrow> (string \<times> Schema option) list" where
  "roundTripSchemas r = [(''A'', Some (refTo r)), (''B'', Some (ofType ''string''))]"

text \<open>A schema with its \<open>enum\<close> field removed.\<close>

definition withoutEnum :: "Schema \<Rightarrow> Schema" where
  "withoutEnum schema =
     Schema (type schema) None (properties schema) (required schema) (oneOf schema) (anyOf schema)
       (allOf schema) (ref schema) (items schema)"






text \<open>An object schema whose properties are written in the order \<open>b\<close>, \<open>10\<close>, \<open>9\<close>.\<close>

definition indexedProperties :: Schema where
  "indexedProperties = Schema (Some ''object'') None
     (Some [(''b'', ofType ''string''), (''10'', ofType ''number''), (''9'', ofType ''boolean'')])
     None None None None None None"


text \<open>A call returns when its result is a value, neither an exception nor \<open>None\<close>.\<close>

definition returns :: "'a result \<Rightarrow> bool" where
  "returns r = (case r of Some (Inr out) \<Rightarrow> True | _ \<Rightarrow> False)"

text \<open>The result \<open>b\<close> of a call at a greater depth extends the result \<open>a\<close>.\<close>

definition extends :: "'a result \<Rightarrow> 'a result \<Rightarrow> bool" where
  "extends a b = (a = None \<or> a = b)"

section \<open>Auxiliary facts\<close>

lemma returns_iff: "returns r \<longleftrightarrow> (\<exists>out. r = Some (Inr out))"
  by (simp add: returns_def split: option.splits sum.splits)

lemmas entries_defs = objectEntries_def isIndexed_def indexOf_def arrayIndex_def decimalValue_def
  digitValue_def isDigit_def digitChars_def

lemma mset_objectEntries: "mset (objectEntries obj) = mset obj"
  by (simp add: objectEntries_def)


lemma objectEntries_no_index:
  "(\<And>entry. entry \<in> set obj \<Longrightarrow> \<not> isIndexed entry) \<Longrightarrow> objectEntries obj = obj"
  by (simp add: objectEntries_def filter_empty_conv[THEN iffD2] filter_id_conv[THEN iffD2])

lemma objectEntries_others:
  "filter (\<lambda>entry. \<not> isIndexed entry) (objectEntries obj) = filter (\<lambda>entry. \<not> isIndexed entry) obj"
  by (simp add: objectEntries_def filter_sort)

lemma objectEntries_indices:
  "filter isIndexed (objectEntries obj) = sort_key indexOf (filter isIndexed obj)"
  by (simp add: objectEntries_def filter_sort filter_id_conv[THEN iffD2])

lemma objectEntries_split:
  "objectEntries obj
     = filter isIndexed (objectEntries obj) @ filter (\<lambda>entry. \<not> isIndexed entry) (objectEntries obj)"
  unfolding objectEntries_indices objectEntries_others by (simp add: objectEntries_def)

lemma objectEntries_sorted:
  "sorted (map indexOf (filter isIndexed (objectEntries obj)))"
  by (simp add: objectEntries_indices)

lemmas string_defs = safeEnumKey_def trim_def isSpace_def isSep_def isLower_def isUpper_def
  isDigit_def lowerChars_def upperChars_def digitChars_def toUpperCase_def toUpperChar_def
  isWord_def isIdentifier_def safeKey_def

lemmas ref_defs = truthyRef_def lookupSchema_def refName_def schemasPath_def noFields_def
  objectPrototypeKeys_def

lemma returning_simps [simp]:
  "returning f None = None"
  "returning f (Some (Inl e)) = Some (Inl e)"
  "returning f (Some (Inr x)) = Some (Inr (f x))"
  by (simp_all add: returning_def)

lemma returning_eq_Inr: "returning f r = Some (Inr y) \<longleftrightarrow> (\<exists>x. r = Some (Inr x) \<and> y = f x)"
  by (cases r) (auto simp: returning_def map_sum_def split: sum.splits)

lemma collect_map_Inr_D:
  "collect (map f xs) = Some (Inr ys) \<Longrightarrow> list_all2 (\<lambda>x y. f x = Some (Inr y)) xs ys"
  by (induction xs arbitrary: ys) (auto split: option.splits sum.splits)

lemma collect_map_Inr_I:
  "list_all2 (\<lambda>x y. f x = Some (Inr y)) xs ys \<Longrightarrow> collect (map f xs) = Some (Inr ys)"
  by (induction xs ys rule: list_all2_induct) auto

lemma collect_map_eq_Inr:
  "collect (map f xs) = Some (Inr ys) \<longleftrightarrow> list_all2 (\<lambda>x y. f x = Some (Inr y)) xs ys"
  using collect_map_Inr_D collect_map_Inr_I by blast



lemma join_contains: "x \<in> set xs \<Longrightarrow> \<exists>pre post. join sep xs = pre @ x @ post"
proof (induction sep xs rule: join.induct)
  case (1 sep)
  then show ?case by simp
next
  case (2 sep y)
  then have "join sep [y] = [] @ x @ []" by simp
  then show ?case by blast
next
  case (3 sep a b ys)
  show ?case
  proof (cases "x = a")
    case True
    then have "join sep (a # b # ys) = [] @ x @ (sep @ join sep (b # ys))" by simp
    then show ?thesis by blast
  next
    case False
    with 3 obtain pre post where "join sep (b # ys) = pre @ x @ post" by auto
    then have "join sep (a # b # ys) = (a @ sep @ pre) @ x @ post" by simp
    then show ?thesis by blast
  qed
qed

lemma join_map_contains:
  "v \<in> set vs \<Longrightarrow> \<exists>pre post. join sep (map f vs) = pre @ f v @ post"
  by (rule join_contains) simp

lemma withoutEnum_sel [simp]:
  "type (withoutEnum s) = type s" "enum (withoutEnum s) = None"
  "properties (withoutEnum s) = properties s" "required (withoutEnum s) = required s"
  "oneOf (withoutEnum s) = oneOf s" "anyOf (withoutEnum s) = anyOf s" "allOf (withoutEnum s) = allOf s"
  "ref (withoutEnum s) = ref s" "items (withoutEnum s) = items s"
  "truthyRef (withoutEnum s) = truthyRef s"
  by (simp_all add: withoutEnum_def truthyRef_def)


lemma variant_without_properties:
  "truthyRef v = None \<Longrightarrow> properties v = None \<Longrightarrow> variant (Suc n) allSchemas options v = Some (Inr ''{}'')"
  by (simp add: variant_def)

lemma collect_map_const:
  "(\<And>x. x \<in> set xs \<Longrightarrow> f x = Some (Inr c)) \<Longrightarrow> collect (map f xs) = Some (Inr (replicate (length xs) c))"
  by (induction xs) simp_all

lemma generateType_union:
  assumes "enum schema = None"
    and "oneOf schema = Some vs \<or> oneOf schema = None \<and> anyOf schema = Some vs"
  shows "generateType fuel name (Some schema) allSchemas options =
     returning (\<lambda>ts. ''export type '' @ (case interfacePrefix options of None \<Rightarrow> ''I'' | Some p \<Rightarrow> p) @ name
                @ '' = '' @ join '' | '' ts @ '';'')
       (collect (map (variant fuel allSchemas options) vs))"
  using assms by (auto simp: generateType_def)

lemma generateType_intersection:
  assumes "enum schema = None" and "oneOf schema = None" and "anyOf schema = None" and "allOf schema = Some vs"
  shows "generateType fuel name (Some schema) allSchemas options =
     returning (\<lambda>ts. ''export type '' @ (case interfacePrefix options of None \<Rightarrow> ''I'' | Some p \<Rightarrow> p) @ name
                @ '' = '' @ join '' & '' ts @ '';'')
       (collect (map (variant fuel allSchemas options) vs))"
  using assms by (auto simp: generateType_def)

lemma collect_fields:
  "collect (map (\<lambda>(prop, propSchema). returning (g prop) (f propSchema)) props) = Some (Inr lines) \<Longrightarrow>
   \<exists>types. list_all2 (\<lambda>(prop, propSchema) t. f propSchema = Some (Inr t)) props types
     \<and> lines = map2 (\<lambda>(prop, propSchema) t. g prop t) props types"
proof (induction props arbitrary: lines)
  case Nil
  then show ?case by simp
next
  case (Cons a props)
  obtain k s where a: "a = (k, s)" by (cases a)
  from Cons.prems a obtain l ls where l: "returning (g k) (f s) = Some (Inr l)"
    and ls: "collect (map (\<lambda>(prop, propSchema). returning (g prop) (f propSchema)) props) = Some (Inr ls)"
    and lines: "lines = l # ls"
    by (simp split: option.splits sum.splits)
  from l obtain t where t: "f s = Some (Inr t)" "l = g k t"
    unfolding returning_eq_Inr by blast
  from Cons.IH [OF ls] obtain types where
    types: "list_all2 (\<lambda>(prop, propSchema) t. f propSchema = Some (Inr t)) props types"
      "ls = map2 (\<lambda>(prop, propSchema) t. g prop t) props types"
    by blast
  have "list_all2 (\<lambda>(prop, propSchema) t. f propSchema = Some (Inr t)) (a # props) (t # types)"
    using a t types by simp
  moreover have "lines = map2 (\<lambda>(prop, propSchema) t. g prop t) (a # props) (t # types)"
    using a t types lines by simp
  ultimately show ?case by blast
qed

lemma inlineObject_lines:
  assumes "properties schema = Some props"
    and "inlineObject fuel (Some schema) allSchemas wb options = Some (Inr out)"
  shows "\<exists>types. list_all2 (\<lambda>(prop, propSchema) t.
              mapType (fuel - 1) (Some propSchema) allSchemas options = Some (Inr t))
            (objectEntries props) types
          \<and> out = ''{\<newline>'' @ join ''\<newline>''
                (map2 (\<lambda>(prop, propSchema) t. fieldLine (required schema) prop t)
                   (objectEntries props) types) @ ''\<newline>}''"
proof (cases fuel)
  case 0
  with assms show ?thesis by simp
next
  case (Suc n)
  with assms have "returning (\<lambda>lines. ''{\<newline>'' @ join ''\<newline>'' lines @ ''\<newline>}'')
            (collect (map (\<lambda>(prop, propSchema).
               returning (fieldLine (required schema) prop) (mapType n (Some propSchema) allSchemas options))
               (objectEntries props))) = Some (Inr out)"
    by simp
  then obtain lines where lines: "collect (map (\<lambda>(prop, propSchema).
               returning (fieldLine (required schema) prop) (mapType n (Some propSchema) allSchemas options))
               (objectEntries props)) = Some (Inr lines)"
    and out: "out = ''{\<newline>'' @ join ''\<newline>'' lines @ ''\<newline>}''"
    unfolding returning_eq_Inr by blast
  from collect_fields [OF lines] out Suc show ?thesis by auto
qed

lemma mapType_variants:
  assumes "truthyRef schema = None"
    and "mapType fuel (Some schema) allSchemas options = Some (Inr out)"
    and "oneOf schema = Some vs \<and> sep = '' | '' \<or> oneOf schema = None \<and> anyOf schema = Some vs \<and> sep = '' | ''
       \<or> oneOf schema = None \<and> anyOf schema = None \<and> allOf schema = Some vs \<and> sep = '' & ''"
  shows "\<exists>ts. list_all2 (\<lambda>v t. mapType (fuel - 1) (Some v) allSchemas options = Some (Inr t)) vs ts \<and> out = join sep ts"
proof (cases fuel)
  case 0
  with assms show ?thesis by simp
next
  case (Suc n)
  with assms obtain ts where "collect (map (\<lambda>s. mapType n (Some s) allSchemas options) vs) = Some (Inr ts)"
    and "out = join sep ts"
    by (auto simp: returning_eq_Inr)
  with Suc show ?thesis by (auto simp: collect_map_eq_Inr)
qed








lemma returns_simps [simp]:
  "returns (Some (Inr x))" "\<not> returns None" "\<not> returns (Some (Inl e))"
  "returns (returning f r) = returns r"
  by (auto simp: returns_iff returning_eq_Inr)





















subsection \<open>The depth bound does not change a result\<close>

text \<open>
  A call that has a result within some depth, a string or an exception, has the same
  result within every greater depth.
\<close>

lemma extends_refl [simp]: "extends a a" "extends None b"
  by (simp_all add: extends_def)

lemma extends_returning: "extends a b \<Longrightarrow> extends (returning f a) (returning f b)"
  by (auto simp: extends_def)

lemma extends_collect:
  "(\<And>x. x \<in> set xs \<Longrightarrow> extends (f x) (g x)) \<Longrightarrow> extends (collect (map f xs)) (collect (map g xs))"
proof (induction xs)
  case Nil
  then show ?case by simp
next
  case (Cons x xs)
  then have 1: "extends (f x) (g x)" and 2: "extends (collect (map f xs)) (collect (map g xs))"
    by simp_all
  show ?case
  proof (cases "f x")
    case None
    then show ?thesis by simp
  next
    case (Some r)
    with 1 have g: "g x = Some r" by (simp add: extends_def)
    show ?thesis
    proof (cases "collect (map f xs)")
      case None
      with Some g show ?thesis by (simp split: sum.splits)
    next
      case (Some rs)
      with 2 have "collect (map g xs) = Some rs" by (simp add: extends_def)
      with Some g \<open>f x = Some r\<close> show ?thesis by (simp split: sum.splits)
    qed
  qed
qed

lemma deeper_step:
  assumes M: "\<And>s. extends (mapType n s allSchemas options) (mapType (Suc n) s allSchemas options)"
    and I: "\<And>s wb. extends (inlineObject n s allSchemas wb options) (inlineObject (Suc n) s allSchemas wb options)"
  shows "extends (mapType (Suc n) s allSchemas options) (mapType (Suc (Suc n)) s allSchemas options)"
    and "extends (inlineObject (Suc n) s allSchemas wb options) (inlineObject (Suc (Suc n)) s allSchemas wb options)"
proof -
  have vs: "extends (returning f (collect (map (\<lambda>s. mapType n (Some s) allSchemas options) vs)))
      (returning f (collect (map (\<lambda>s. mapType (Suc n) (Some s) allSchemas options) vs)))" for f vs
    by (intro extends_returning extends_collect M)
  have it: "extends (returning f (mapType n (Some i) allSchemas options))
      (returning f (mapType (Suc n) (Some i) allSchemas options))" for f i
    by (intro extends_returning M)
  show "extends (mapType (Suc n) s allSchemas options) (mapType (Suc (Suc n)) s allSchemas options)"
  proof (cases s)
    case None
    then show ?thesis by simp
  next
    case (Some schema)
    show ?thesis
      unfolding Some
      apply (subst mapType.simps(3))
      apply (subst mapType.simps(3))
      apply (simp del: mapType.simps inlineObject.simps add: vs it I split: option.split)
      done
  qed
  have ps: "extends (returning f (collect (map (\<lambda>(prop, propSchema).
               returning (g prop) (mapType n (Some propSchema) allSchemas options)) props)))
      (returning f (collect (map (\<lambda>(prop, propSchema).
               returning (g prop) (mapType (Suc n) (Some propSchema) allSchemas options)) props)))" for f g props
    by (intro extends_returning extends_collect) (auto simp del: mapType.simps intro!: extends_returning M)
  show "extends (inlineObject (Suc n) s allSchemas wb options) (inlineObject (Suc (Suc n)) s allSchemas wb options)"
  proof (cases s)
    case None
    then show ?thesis by simp
  next
    case (Some schema)
    show ?thesis
      unfolding Some
      apply (subst inlineObject.simps(3))
      apply (subst inlineObject.simps(3))
      apply (simp del: mapType.simps inlineObject.simps add: ps split: option.split)
      done
  qed
qed

lemma deeper:
  "extends (mapType n s allSchemas options) (mapType (Suc n) s allSchemas options)
   \<and> extends (inlineObject n s allSchemas wb options) (inlineObject (Suc n) s allSchemas wb options)"
proof (induction n arbitrary: s wb)
  case 0
  then show ?case by simp
next
  case (Suc n)
  then show ?case using deeper_step [of n allSchemas options] by blast
qed

lemma mapType_deeper:
  "mapType n s allSchemas options = Some r \<Longrightarrow> n \<le> m \<Longrightarrow> mapType m s allSchemas options = Some r"
proof (induction m)
  case 0
  then show ?case by simp
next
  case (Suc m)
  show ?case
  proof (cases "n = Suc m")
    case True
    with Suc show ?thesis by simp
  next
    case False
    with Suc have "mapType m s allSchemas options = Some r" by simp
    with deeper [of m s allSchemas options] show ?thesis by (simp add: extends_def)
  qed
qed

lemma inlineObject_deeper:
  "inlineObject n s allSchemas wb options = Some r \<Longrightarrow> n \<le> m \<Longrightarrow>
   inlineObject m s allSchemas wb options = Some r"
proof (induction m)
  case 0
  then show ?case by simp
next
  case (Suc m)
  show ?case
  proof (cases "n = Suc m")
    case True
    with Suc show ?thesis by simp
  next
    case False
    with Suc have "inlineObject m s allSchemas wb options = Some r" by simp
    with deeper [of m s allSchemas options wb] show ?thesis by (simp add: extends_def)
  qed
qed

section \<open>Reference round-trip\<close>

text \<open>
  Claim C1, as stated, at the schema mapping \<open>{ A: {$ref: "B"}, B: {type: "string"} }\<close>
  with \<open>inlineRef = true\<close>: mapping \<open>A\<close> does not give \<open>string\<close>. The reference is
  resolved and handed to \<open>inlineObject\<close>, which looks at \<open>properties\<close> only; \<open>B\<close>
  has none, and the result is the empty-object literal.
\<close>

theorem inline_ref_round_trip_counterexample:
  "mapType 2 (Some (refTo ''B'')) (roundTripSchemas ''B'')
      \<lparr>interfacePrefix = None, inlineRef = Some True\<rparr> = Some (Inr ''{}'') \<and>
   mapType 2 (Some (refTo ''B'')) (roundTripSchemas ''B'')
      \<lparr>interfacePrefix = None, inlineRef = Some True\<rparr> \<noteq> Some (Inr ''string'')"
  by (simp add: numeral_2_eq_2 refTo_def ofType_def roundTripSchemas_def ref_defs)

text \<open>
  Claim C1, amended. For the schema mapping \<open>{ A: {$ref: B}, B: {type: "string"} }\<close>,
  the reference written as the bare name or with the path \<open>#/components/schemas/\<close>,
  and for every naming prefix: with \<open>inlineRef\<close> absent or false, mapping \<open>A\<close>
  yields the declared-type name for \<open>B\<close>, the naming prefix followed by \<open>B\<close>,
  which is \<open>IB\<close> under the default prefix; with \<open>inlineRef = true\<close> it yields the
  empty-object literal \<open>{}\<close>.
\<close>

theorem ref_round_trip:
  "mapType (Suc n) (Some (refTo ''B'')) (roundTripSchemas ''B'')
      \<lparr>interfacePrefix = namingPrefix, inlineRef = None\<rparr>
     = Some (Inr ((case namingPrefix of None \<Rightarrow> ''I'' | Some p \<Rightarrow> p) @ ''B'')) \<and>
   mapType (Suc n) (Some (refTo ''B'')) (roundTripSchemas ''B'')
      \<lparr>interfacePrefix = namingPrefix, inlineRef = Some False\<rparr>
     = Some (Inr ((case namingPrefix of None \<Rightarrow> ''I'' | Some p \<Rightarrow> p) @ ''B'')) \<and>
   mapType (Suc n) (Some (refTo ''B'')) (roundTripSchemas ''B'')
      \<lparr>interfacePrefix = None, inlineRef = None\<rparr> = Some (Inr ''IB'') \<and>
   mapType (Suc (Suc n)) (Some (refTo ''B'')) (roundTripSchemas ''B'')
      \<lparr>interfacePrefix = namingPrefix, inlineRef = Some True\<rparr> = Some (Inr ''{}'') \<and>
   mapType (Suc n) (Some (refTo ''#/components/schemas/B'')) (roundTripSchemas ''#/components/schemas/B'')
      \<lparr>interfacePrefix = namingPrefix, inlineRef = None\<rparr>
     = Some (Inr ((case namingPrefix of None \<Rightarrow> ''I'' | Some p \<Rightarrow> p) @ ''B'')) \<and>
   mapType (Suc n) (Some (refTo ''#/components/schemas/B'')) (roundTripSchemas ''#/components/schemas/B'')
      \<lparr>interfacePrefix = namingPrefix, inlineRef = Some False\<rparr>
     = Some (Inr ((case namingPrefix of None \<Rightarrow> ''I'' | Some p \<Rightarrow> p) @ ''B'')) \<and>
   mapType (Suc n) (Some (refTo ''#/components/schemas/B'')) (roundTripSchemas ''#/components/schemas/B'')
      \<lparr>interfacePrefix = None, inlineRef = None\<rparr> = Some (Inr ''IB'') \<and>
   mapType (Suc (Suc n)) (Some (refTo ''#/components/schemas/B'')) (roundTripSchemas ''#/components/schemas/B'')
      \<lparr>interfacePrefix = namingPrefix, inlineRef = Some True\<rparr> = Some (Inr ''{}'')"
  by (simp add: refTo_def ofType_def roundTripSchemas_def ref_defs)

section \<open>Unresolvable references\<close>

text \<open>
  Claim C2 at a failing input. With \<open>inlineRef = true\<close> and a reference whose name
  the schema mapping does not have, the lookup gives \<open>undefined\<close>, and
  \<open>inlineObject\<close> reads \<open>properties\<close> of it: \<open>mapType\<close> throws a \<open>TypeError\<close>
  instead of returning, and a generation run over a mapping with one such property
  throws as a whole, also for the declarations that are well formed.
\<close>

theorem unresolvable_inline_ref_throws:
  "mapType (Suc (Suc n)) (Some (refTo ''#/components/schemas/Missing'')) []
     \<lparr>interfacePrefix = None, inlineRef = Some True\<rparr> = Some (Inl TypeError) \<and>
   generateFromSchemas (Suc (Suc (Suc n)))
     [(''Good'', Some (ofType ''object'')),
      (''Bad'', Some (Schema (Some ''object'') None
                  (Some [(''x'', refTo ''#/components/schemas/Missing'')]) None None None None None None))]
     \<lparr>interfacePrefix = None, inlineRef = Some True\<rparr> = Some (Inl TypeError)"
  by (simp add: refTo_def ofType_def ref_defs generateFromSchemas_def generateType_def entries_defs)

section \<open>Precedence of the declaration emitter\<close>

text \<open>
  Claim C4. For every declaration name and every schema in which both \<open>enum\<close> and
  \<open>oneOf\<close> are present, \<open>generateType\<close> emits the named enum declaration, one
  member for each enum value: the enum branch is tested first.
\<close>

theorem enum_wins_over_oneOf:
  assumes "enum schema = Some vs" and "oneOf schema = Some us"
  shows "generateType fuel name (Some schema) allSchemas options =
     Some (Inr (''export enum '' @ (case interfacePrefix options of None \<Rightarrow> ''I'' | Some p \<Rightarrow> p) @ name
                @ '' {\<newline>''
                @ join ''\<newline>'' (map (\<lambda>v. ''  '' @ safeEnumKey v @ '' = \"'' @ v @ ''\",'') vs)
                @ ''\<newline>}''))"
proof -
  have "enumMember = (\<lambda>v. ''  '' @ safeEnumKey v @ '' = \"'' @ v @ ''\",'')"
    by (rule ext) (simp add: enumMember_def)
  with assms show ?thesis by (simp add: generateType_def)
qed

theorem enum_wins_over_oneOf_witness:
  "generateType 0 ''Color''
     (Some (Schema (Some ''string'') (Some [''dark-red'', ''green'']) None None (Some [ofType ''string''])
        None None None None))
     [] \<lparr>interfacePrefix = None, inlineRef = None\<rparr> =
   Some (Inr ''export enum IColor {\<newline>  DARK_RED = \"dark-red\",\<newline>  GREEN = \"green\",\<newline>}'')"
  using enum_wins_over_oneOf [of "Schema (Some ''string'') (Some [''dark-red'', ''green'']) None None
      (Some [ofType ''string'']) None None None None"
      "[''dark-red'', ''green'']" "[ofType ''string'']" 0 "''Color''" "[]"
      "\<lparr>interfacePrefix = None, inlineRef = None\<rparr>"]
  by (simp add: string_defs)

section \<open>Enums inside type expressions\<close>




section \<open>Enum values are not escaped\<close>

text \<open>
  Claim C10. Every enum value \<open>v\<close> stands in the emitted enum declaration as the
  member value \<open>= "v",\<close> and in the inline literal union as \<open>"v"\<close>: the characters
  of \<open>v\<close> are copied between the two double quotes as they are, so a double quote
  inside \<open>v\<close> is in the text unescaped.
\<close>

theorem enum_values_verbatim:
  assumes "enum schema = Some vs" and "v \<in> set vs"
  shows "(\<exists>pre post. generateType fuel name (Some schema) allSchemas options =
            Some (Inr (pre @ '' = '' @ [CHR 0x22] @ v @ [CHR 0x22] @ '','' @ post)))
    \<and> (truthyRef schema = None \<and> oneOf schema = None \<and> anyOf schema = None \<and> allOf schema = None
         \<and> type schema = Some ''string'' \<longrightarrow>
       (\<exists>pre post. mapType (Suc n) (Some schema) allSchemas options =
            Some (Inr (pre @ [CHR 0x22] @ v @ [CHR 0x22] @ post))))"
proof (intro conjI impI)
  obtain pre post where "join ''\<newline>'' (map enumMember vs) = pre @ enumMember v @ post"
    using join_map_contains [OF assms(2)] by blast
  then have "generateType fuel name (Some schema) allSchemas options =
     Some (Inr ((''export enum '' @ (case interfacePrefix options of None \<Rightarrow> ''I'' | Some p \<Rightarrow> p) @ name
                @ '' {\<newline>'' @ pre @ ''  '' @ safeEnumKey v)
                @ '' = '' @ [CHR 0x22] @ v @ [CHR 0x22] @ '','' @ (post @ ''\<newline>}'')))"
    using assms(1) by (simp add: generateType_def enumMember_def)
  then show "\<exists>pre post. generateType fuel name (Some schema) allSchemas options =
            Some (Inr (pre @ '' = '' @ [CHR 0x22] @ v @ [CHR 0x22] @ '','' @ post))"
    by blast
next
  assume a: "truthyRef schema = None \<and> oneOf schema = None \<and> anyOf schema = None \<and> allOf schema = None
         \<and> type schema = Some ''string''"
  from assms have ne: "vs \<noteq> []" by auto
  obtain pre post where "join '' | '' (map quoted vs) = pre @ quoted v @ post"
    using join_map_contains [OF assms(2)] by blast
  then have "mapType (Suc n) (Some schema) allSchemas options =
      Some (Inr (pre @ [CHR 0x22] @ v @ [CHR 0x22] @ post))"
    using a assms(1) ne by (simp add: quoted_def)
  then show "\<exists>pre post. mapType (Suc n) (Some schema) allSchemas options =
            Some (Inr (pre @ [CHR 0x22] @ v @ [CHR 0x22] @ post))"
    by blast
qed

theorem enum_values_verbatim_witness:
  "generateType 0 ''Q'' (Some (Schema (Some ''string'') (Some [''a\"b'']) None None None None None None None)) []
      \<lparr>interfacePrefix = None, inlineRef = None\<rparr>
     = Some (Inr ''export enum IQ {\<newline>  A\"B = \"a\"b\",\<newline>}'')
   \<and> mapType 1 (Some (Schema (Some ''string'') (Some [''a\"b'']) None None None None None None None)) []
      \<lparr>interfacePrefix = None, inlineRef = None\<rparr> = Some (Inr ''\"a\"b\"'')
   \<and> (\<exists>pre post. generateType 0 ''Q''
        (Some (Schema (Some ''string'') (Some [''a\"b'']) None None None None None None None)) []
        \<lparr>interfacePrefix = None, inlineRef = None\<rparr> = Some (Inr (pre @ '' = \"a\"b\",'' @ post)))
   \<and> (\<exists>pre post. mapType 1
        (Some (Schema (Some ''string'') (Some [''a\"b'']) None None None None None None None)) []
        \<lparr>interfacePrefix = None, inlineRef = None\<rparr> = Some (Inr (pre @ ''\"a\"b\"'' @ post)))"
  using enum_values_verbatim [of "Schema (Some ''string'') (Some [''a\"b'']) None None None None None None None"
      "[''a\"b'']" "''a\"b''" 0 "''Q''" "[]" "\<lparr>interfacePrefix = None, inlineRef = None\<rparr>" 0]
  by (simp add: truthyRef_def generateType_def enumMember_def quoted_def string_defs)

section \<open>Totality and non-empty results\<close>




section \<open>Cyclic references under inline expansion\<close>




section \<open>Order of the rendered fields and variants\<close>

text \<open>
  Claim C6, as stated, at an object schema whose properties are written in the order
  \<open>b\<close>, \<open>10\<close>, \<open>9\<close>: the field lines come out in the order \<open>9\<close>, \<open>10\<close>,
  \<open>b\<close>, because \<open>Object.entries\<close> lists the keys that are array indices first and
  in ascending order.
\<close>

theorem indexed_properties_counterexample:
  "inlineObject (Suc (Suc 0)) (Some indexedProperties) [] True
      \<lparr>interfacePrefix = None, inlineRef = None\<rparr>
     = Some (Inr (''{\<newline>'' @ join ''\<newline>''
          [fieldLine None ''9'' ''boolean'', fieldLine None ''10'' ''number'', fieldLine None ''b'' ''string'']
          @ ''\<newline>}''))
   \<and> inlineObject (Suc (Suc 0)) (Some indexedProperties) [] True
      \<lparr>interfacePrefix = None, inlineRef = None\<rparr>
     \<noteq> Some (Inr (''{\<newline>'' @ join ''\<newline>''
          [fieldLine None ''b'' ''string'', fieldLine None ''10'' ''number'', fieldLine None ''9'' ''boolean'']
          @ ''\<newline>}''))
   \<and> properties indexedProperties
     = Some [(''b'', ofType ''string''), (''10'', ofType ''number''), (''9'', ofType ''boolean'')]"
  by (simp add: indexedProperties_def ofType_def truthyRef_def entries_defs fieldLine_def string_defs)

text \<open>
  Claim C6, amended. When \<open>inlineObject\<close> renders an object schema, the text is the
  newline-join of one field line for each property, in the order in which
  \<open>Object.entries\<close> lists the properties: those whose key is an array index first,
  in ascending numeric order, then all the others in exactly the order in which they
  are written in the input mapping, so that the order is the written one when no key
  is an array index. No property is dropped or repeated. When \<open>mapType\<close> maps a
  schema with \<open>oneOf\<close>, \<open>anyOf\<close> or \<open>allOf\<close> (the first of them that is present,
  and no \<open>$ref\<close>), the text is the join of the mapped variants, the i-th part from
  the i-th variant of the input sequence: no variant is dropped, merged or moved.
\<close>

theorem order_preserved:
  "(properties schema = Some props
      \<and> inlineObject fuel (Some schema) allSchemas withBraces options = Some (Inr out) \<longrightarrow>
      (\<exists>types. list_all2 (\<lambda>(prop, propSchema) t.
                   mapType (fuel - 1) (Some propSchema) allSchemas options = Some (Inr t))
                 (objectEntries props) types
         \<and> out = ''{\<newline>'' @ join ''\<newline>''
                   (map2 (\<lambda>(prop, propSchema) t. fieldLine (required schema) prop t)
                      (objectEntries props) types) @ ''\<newline>}''))
   \<and> objectEntries props
        = filter isIndexed (objectEntries props) @ filter (\<lambda>entry. \<not> isIndexed entry) props
   \<and> sorted (map indexOf (filter isIndexed (objectEntries props)))
   \<and> mset (objectEntries props) = mset props
   \<and> ((\<forall>entry\<in>set props. \<not> isIndexed entry) \<longrightarrow> objectEntries props = props)
   \<and> (truthyRef schema = None \<and> mapType fuel (Some schema) allSchemas options = Some (Inr out)
        \<and> (oneOf schema = Some vs \<and> sep = '' | ''
           \<or> oneOf schema = None \<and> anyOf schema = Some vs \<and> sep = '' | ''
           \<or> oneOf schema = None \<and> anyOf schema = None \<and> allOf schema = Some vs \<and> sep = '' & '') \<longrightarrow>
      (\<exists>ts. list_all2 (\<lambda>v t. mapType (fuel - 1) (Some v) allSchemas options = Some (Inr t)) vs ts
         \<and> out = join sep ts))"
proof -
  have "objectEntries props
        = filter isIndexed (objectEntries props) @ filter (\<lambda>entry. \<not> isIndexed entry) props"
    using objectEntries_split [of props] by (simp only: objectEntries_others)
  moreover have "(\<forall>entry\<in>set props. \<not> isIndexed entry) \<longrightarrow> objectEntries props = props"
    by (simp add: objectEntries_no_index)
  ultimately show ?thesis
    using inlineObject_lines [of schema props fuel allSchemas withBraces options out]
      mapType_variants [of schema fuel allSchemas options out vs sep]
      objectEntries_sorted [of props] mset_objectEntries [of props]
    by blast
qed

theorem order_preserved_witness:
  "inlineObject 2
     (Some (Schema (Some ''object'') None
        (Some [(''zeta'', ofType ''string''), (''alpha'', ofType ''number''), (''zeta2'', ofType ''string'')])
        (Some [''alpha'']) (Some [ofType ''string'', ofType ''number'', ofType ''string''])
        None None None None))
     [] True \<lparr>interfacePrefix = None, inlineRef = None\<rparr>
     = Some (Inr ''{\<newline>  zeta?: string;\<newline>  alpha: number;\<newline>  zeta2?: string;\<newline>}'')
   \<and> mapType 2
     (Some (Schema (Some ''object'') None
        (Some [(''zeta'', ofType ''string''), (''alpha'', ofType ''number''), (''zeta2'', ofType ''string'')])
        (Some [''alpha'']) (Some [ofType ''string'', ofType ''number'', ofType ''string''])
        None None None None))
     [] \<lparr>interfacePrefix = None, inlineRef = None\<rparr>
     = Some (Inr ''string | number | string'')
   \<and> objectEntries [(''zeta'', ofType ''string''), (''alpha'', ofType ''number''), (''zeta2'', ofType ''string'')]
     = [(''zeta'', ofType ''string''), (''alpha'', ofType ''number''), (''zeta2'', ofType ''string'')]"
  using order_preserved [of "Schema (Some ''object'') None
        (Some [(''zeta'', ofType ''string''), (''alpha'', ofType ''number''), (''zeta2'', ofType ''string'')])
        (Some [''alpha'']) (Some [ofType ''string'', ofType ''number'', ofType ''string''])
        None None None None"
     "[(''zeta'', ofType ''string''), (''alpha'', ofType ''number''), (''zeta2'', ofType ''string'')]"
     2 "[]" True "\<lparr>interfacePrefix = None, inlineRef = None\<rparr>"
     "''string | number | string''" "[ofType ''string'', ofType ''number'', ofType ''string'']" "'' | ''"]
  by (simp add: numeral_2_eq_2 ofType_def truthyRef_def fieldLine_def string_defs entries_defs)

section \<open>Variants of a top-level union or intersection\<close>

text \<open>
  Claim C9. In the declaration that \<open>generateType\<close> emits for a schema with
  \<open>oneOf\<close>, \<open>anyOf\<close> or \<open>allOf\<close> (and no \<open>enum\<close>), every variant that has
  no \<open>$ref\<close> and no \<open>properties\<close> stands as the empty-object literal \<open>{}\<close>,
  whatever its \<open>type\<close>; a declaration all of whose variants are such is a join of
  \<open>{}\<close> alone.
\<close>

theorem variants_without_properties_render_empty:
  assumes "enum schema = None"
    and "(oneOf schema = Some vs \<or> oneOf schema = None \<and> anyOf schema = Some vs) \<and> sep = '' | ''
         \<or> oneOf schema = None \<and> anyOf schema = None \<and> allOf schema = Some vs \<and> sep = '' & ''"
  shows "(\<forall>out. generateType (Suc n) name (Some schema) allSchemas options = Some (Inr out) \<longrightarrow>
           (\<exists>ts. out = ''export type '' @ (case interfacePrefix options of None \<Rightarrow> ''I'' | Some p \<Rightarrow> p) @ name
                        @ '' = '' @ join sep ts @ '';''
                \<and> length ts = length vs
                \<and> (\<forall>i<length vs. truthyRef (vs ! i) = None \<and> properties (vs ! i) = None \<longrightarrow> ts ! i = ''{}'')))
     \<and> ((\<forall>v\<in>set vs. truthyRef v = None \<and> properties v = None) \<longrightarrow>
          generateType (Suc n) name (Some schema) allSchemas options =
            Some (Inr (''export type '' @ (case interfacePrefix options of None \<Rightarrow> ''I'' | Some p \<Rightarrow> p) @ name
                        @ '' = '' @ join sep (replicate (length vs) ''{}'') @ '';'')))"
proof -
  let ?decl = "\<lambda>ts. ''export type '' @ (case interfacePrefix options of None \<Rightarrow> ''I'' | Some p \<Rightarrow> p) @ name
                @ '' = '' @ join sep ts @ '';''"
  have gen: "generateType (Suc n) name (Some schema) allSchemas options =
      returning ?decl (collect (map (variant (Suc n) allSchemas options) vs))"
    using assms generateType_union [of schema vs] generateType_intersection [of schema vs]
    by metis
  have one: "\<exists>ts. out = ?decl ts \<and> length ts = length vs
                \<and> (\<forall>i<length vs. truthyRef (vs ! i) = None \<and> properties (vs ! i) = None \<longrightarrow> ts ! i = ''{}'')"
    if "generateType (Suc n) name (Some schema) allSchemas options = Some (Inr out)" for out
  proof -
    from that gen obtain ts where ts: "collect (map (variant (Suc n) allSchemas options) vs) = Some (Inr ts)"
      and out: "out = ?decl ts"
      by (auto simp: returning_eq_Inr)
    from ts have all2: "list_all2 (\<lambda>v t. variant (Suc n) allSchemas options v = Some (Inr t)) vs ts"
      by (rule collect_map_Inr_D)
    then have len: "length ts = length vs" by (simp add: list_all2_lengthD)
    have "ts ! i = ''{}''" if "i < length vs" "truthyRef (vs ! i) = None" "properties (vs ! i) = None" for i
    proof -
      from all2 that(1) have "variant (Suc n) allSchemas options (vs ! i) = Some (Inr (ts ! i))"
        by (rule list_all2_nthD)
      with that(2,3) show ?thesis by (simp add: variant_without_properties)
    qed
    with out len show ?thesis by blast
  qed
  have two: "generateType (Suc n) name (Some schema) allSchemas options = Some (Inr (?decl (replicate (length vs) ''{}'')))"
    if "\<forall>v\<in>set vs. truthyRef v = None \<and> properties v = None"
  proof -
    have "collect (map (variant (Suc n) allSchemas options) vs) = Some (Inr (replicate (length vs) ''{}''))"
      by (rule collect_map_const) (simp add: that variant_without_properties)
    with gen show ?thesis by simp
  qed
  from one two show ?thesis by blast
qed

theorem variants_without_properties_render_empty_witness:
  "generateType 1 ''U''
     (Some (Schema None None None None
        (Some [ofType ''string'', refTo ''#/components/schemas/B'', ofType ''number'']) None None None None))
     [] \<lparr>interfacePrefix = None, inlineRef = None\<rparr> = Some (Inr ''export type IU = {} | IB | {};'')
   \<and> generateType 1 ''U''
     (Some (Schema None None None None None None (Some [ofType ''string'', ofType ''boolean'']) None None))
     [] \<lparr>interfacePrefix = None, inlineRef = None\<rparr> = Some (Inr ''export type IU = {} & {};'')"
  using variants_without_properties_render_empty [of "Schema None None None None None None (Some [ofType ''string'', ofType ''boolean'']) None None"
      "[ofType ''string'', ofType ''boolean'']" "'' & ''" 0 "''U''" "[]" "\<lparr>interfacePrefix = None, inlineRef = None\<rparr>"]
  by (simp add: ofType_def refTo_def truthyRef_def generateType_def variant_def refName_def schemasPath_def)

section \<open>Enum member sanitization\<close>

text \<open>
  Claim C7. The enum-member sanitizer \<open>safeEnumKey\<close> maps \<open>user-name\<close> to
  \<open>USER_NAME\<close>, \<open>2fa\<close> to \<open>_2FA\<close> and \<open>userName\<close> to \<open>USER_NAME\<close>. It is a
  function from strings to strings with no failing branch: every input has exactly one
  result.
\<close>

theorem safeEnumKey_examples:
  "safeEnumKey ''user-name'' = ''USER_NAME'' \<and>
   safeEnumKey ''2fa'' = ''_2FA'' \<and>
   safeEnumKey ''userName'' = ''USER_NAME'' \<and>
   (\<forall>key. \<exists>!identifier. safeEnumKey key = identifier)"
  by (simp add: safeEnumKey_def trim_def isSpace_def isSep_def isLower_def isUpper_def
      isDigit_def lowerChars_def upperChars_def digitChars_def toUpperCase_def toUpperChar_def)

end
